theory Spec2Isabelle
  imports Main "HOL-Library.Word"
begin

unbundle bit_operations_syntax

section \<open>ICMPv6 input processing of NuttX: \<^verbatim>\<open>net/icmpv6/icmpv6_input.c\<close>\<close>

text \<open>
  The function \<^verbatim>\<open>icmpv6_input\<close> receives the device structure whose packet buffer holds
  one inbound ICMPv6 message. It counts the message, classifies it by its type byte and
  either rewrites the buffer in place into a reply (Neighbor Advertisement, Echo Reply),
  hands an Echo Reply to the callback chain of the waiting ping threads, or drops the
  message by setting the declared length \<^verbatim>\<open>d_len\<close> to zero.

  The embedding is shallow: the device structure and the global variables are records,
  the function takes both and returns both, updated. The calls that leave the function
  (\<^verbatim>\<open>net_neighbor_add\<close>, \<^verbatim>\<open>devif_callback_execute\<close>) are recorded, in order, in a
  list of calls kept with the globals.
\<close>

subsection \<open>Data\<close>

text \<open>
  An IPv6 address (\<^verbatim>\<open>net_ipv6addr_t\<close>, sixteen bytes) is a 128-bit word, most significant
  byte first in memory: \<^verbatim>\<open>net_ipv6addr_cmp\<close> is then equality and \<^verbatim>\<open>net_ipv6addr_copy\<close>
  is assignment. A hardware address is the list of its octets.
\<close>

type_synonym net_ipv6addr_t = "128 word"

text \<open>
  \<^verbatim>\<open>struct eth_hdr_s\<close>, the view \<^verbatim>\<open>ETHBUF\<close> of the first bytes of the buffer. The function
  names the fields \<^verbatim>\<open>dest\<close> and \<^verbatim>\<open>src\<close> only.
\<close>

record eth_hdr_s =
  dest :: "8 word list"
  src :: "8 word list"

text \<open>
  \<^verbatim>\<open>struct icmpv6_iphdr_s\<close>, the view \<^verbatim>\<open>ICMPv6BUF\<close> of the buffer behind the link-layer
  header: the IPv6 header followed by the ICMPv6 message. The fields are those the
  function names (\<^verbatim>\<open>len\<close> stands for the two bytes \<^verbatim>\<open>len[0]\<close>, \<^verbatim>\<open>len[1]\<close> of the payload
  length, most significant first), the next-header byte \<^verbatim>\<open>proto\<close> of the IPv6 header and
  the code byte of the message. The array
  \<^verbatim>\<open>options\<close> is declared with one element and stands for all the bytes of the buffer's
  storage behind \<^verbatim>\<open>icmpv6data\<close>; it is the list of these bytes. For an echo message the four
  bytes \<^verbatim>\<open>flags\<close>, \<^verbatim>\<open>reserved1\<close>, \<^verbatim>\<open>reserved2\<close>, \<^verbatim>\<open>reserved3\<close> hold the identifier and the
  sequence number, and \<^verbatim>\<open>icmpv6data\<close> and \<^verbatim>\<open>options\<close> hold the payload.
\<close>

record icmpv6_iphdr_s =
  len :: "16 word"
  proto :: "8 word"
  srcipaddr :: net_ipv6addr_t
  destipaddr :: net_ipv6addr_t
  type :: "8 word"
  code :: "8 word"
  icmpv6chksum :: "16 word"
  flags :: "8 word"
  reserved1 :: "8 word"
  reserved2 :: "8 word"
  reserved3 :: "8 word"
  icmpv6data :: net_ipv6addr_t
  options :: "8 word list"

text \<open>
  \<^verbatim>\<open>struct net_driver_s\<close>, with the fields the function uses. The buffer \<^verbatim>\<open>d_buf\<close> is
  given by its two views, named as the macros of the source name them. \<^verbatim>\<open>ETHBUF\<close> is
  touched only where the link layer is Ethernet, and there the Ethernet header lies
  in front of the IPv6 header, so the two views never overlap where both are used.
\<close>

record net_driver_s =
  d_flags :: "8 word"
  d_lltype :: "8 word"
  d_mac :: "8 word list"
  d_ipv6addr :: net_ipv6addr_t
  d_len :: "16 word"
  ETHBUF :: eth_hdr_s
  ICMPv6BUF :: icmpv6_iphdr_s

text \<open>
  The build configuration and the constants and macros of header files that the source
  file includes. The four switches are the preprocessor symbols that the source tests
  with \<^verbatim>\<open>#ifdef\<close>, written as the source writes them. The constants are left open: no
  result below depends on their values. \<^verbatim>\<open>NET_LL_HDRLEN\<close> is the value of the macro
  \<^verbatim>\<open>NET_LL_HDRLEN(dev)\<close> for the device at hand, the length of the link-layer header
  in front of the IPv6 header; \<^verbatim>\<open>IFF_IPv6\<close> is the bit that the macro
  \<^verbatim>\<open>IFF_SET_IPv6\<close> sets.
\<close>

record netconfig =
  CONFIG_NET_STATISTICS :: bool
  CONFIG_NET_ETHERNET :: bool
  CONFIG_NET_MULTILINK :: bool
  CONFIG_NET_ICMPv6v6_PING :: bool
  IFF_IPv6 :: "8 word"
  ICMPv6_NEIGHBOR_ADVERTISE :: "8 word"
  ICMPv6_FLAG_S :: "8 word"
  ICMPv6_OPTION_SOURCE_LINK_ADDRESS :: "8 word"
  ICMPv6_OPTION_TARGET_LINK_ADDRESS :: "8 word"
  ICMPv6_ECHOREPLY :: "16 word"
  NET_LL_ETHERNET :: "8 word"
  NET_LL_HDRLEN :: nat

text \<open>
  Modelled from the spec: the type codes of \<^verbatim>\<open>icmpv6.h\<close>, which is not among the sources.
  The spec gives them with the wire layout: 135 is Neighbor Solicitation, 128 is Echo
  Request, 129 is Echo Reply.
\<close>

definition ICMPv6_NEIGHBOR_SOLICIT :: "8 word" where
  "ICMPv6_NEIGHBOR_SOLICIT = 135"

definition ICMPv6_ECHO_REQUEST :: "8 word" where
  "ICMPv6_ECHO_REQUEST = 128"

definition ICMPv6_ECHO_REPLY :: "8 word" where
  "ICMPv6_ECHO_REPLY = 129"

text \<open>
  Modelled from the spec: the length of a hardware address, \<^verbatim>\<open>IFHWADDRLEN\<close> and
  \<^verbatim>\<open>ETHER_ADDR_LEN\<close> of the system headers. An option of length 1 has eight bytes, two of
  them its type and length, which leaves six for the address.
\<close>

definition IFHWADDRLEN :: nat where
  "IFHWADDRLEN = 6"

definition ETHER_ADDR_LEN :: nat where
  "ETHER_ADDR_LEN = 6"

text \<open>
  The counters of \<^verbatim>\<open>g_netstats\<close> that the function touches: \<^verbatim>\<open>g_netstats.icmpv6.recv\<close>
  is \<open>icmpv6_recv\<close>, and so on. Their type \<^verbatim>\<open>net_stats_t\<close> is an unsigned machine
  integer whose width the source file does not fix; it is a word of any width.
\<close>

record 'c netstats_s =
  icmpv6_recv :: 'c
  icmpv6_sent :: 'c
  icmpv6_drop :: 'c
  icmpv6_typeerr :: 'c
  ip_sent :: 'c

text \<open>The calls to other modules, in the order they are made.\<close>

datatype call =
  NET_NEIGHBOR_ADD net_ipv6addr_t "8 word list"
  | DEVIF_CALLBACK_EXECUTE "16 word"

text \<open>
  The global variables: the statistics, the chain of echo callbacks (the null pointer
  is the empty list) and the calls made so far.
\<close>

record ('c, 'cb) globals =
  g_netstats :: "'c netstats_s"
  g_echocallback :: "'cb list"
  calls :: "call list"

subsection \<open>Macros and library functions\<close>

definition net_ipv6addr_cmp :: "net_ipv6addr_t \<Rightarrow> net_ipv6addr_t \<Rightarrow> bool" where
  "net_ipv6addr_cmp a b = (a = b)"

definition IFF_SET_IPv6 :: "netconfig \<Rightarrow> 8 word \<Rightarrow> 8 word" where
  "IFF_SET_IPv6 K f = f OR IFF_IPv6 K"

text \<open>
  \<^verbatim>\<open>memcpy(&dst[off], src, n)\<close> on byte lists. It is the C function where the \<open>n\<close> bytes lie
  inside both arrays; the results below that read the copied bytes say so.
\<close>

definition memcpy :: "8 word list \<Rightarrow> nat \<Rightarrow> 8 word list \<Rightarrow> nat \<Rightarrow> 8 word list" where
  "memcpy dst off source n = take off dst @ take n source @ drop (off + n) dst"

text \<open>
  Modelled from the spec: \<^verbatim>\<open>net_neighbor_add\<close> of the neighbor module, which is not among
  the sources. The Neighbor Cache is a store from IPv6 addresses to link-layer addresses
  on which this function performs upsert calls only; the call is recorded.
\<close>

definition net_neighbor_add ::
  "net_ipv6addr_t \<Rightarrow> 8 word list \<Rightarrow> ('c, 'cb) globals \<Rightarrow> ('c, 'cb) globals" where
  "net_neighbor_add ipaddr addr g = g\<lparr>calls := calls g @ [NET_NEIGHBOR_ADD ipaddr addr]\<rparr>"

subsection \<open>The three exits of the function\<close>

text \<open>The end of the function body, reached by the branches that do not jump: lines 238 to 242.\<close>

definition exit_sent ::
  "netconfig \<Rightarrow> net_driver_s \<times> ('w::len word, 'cb) globals
   \<Rightarrow> net_driver_s \<times> ('w word, 'cb) globals" where
  "exit_sent K s =
    (case s of (dev, g) \<Rightarrow>
      (dev,
       if CONFIG_NET_STATISTICS K
       then g\<lparr>g_netstats := (g_netstats g)
               \<lparr>icmpv6_sent := icmpv6_sent (g_netstats g) + 1,
                ip_sent := ip_sent (g_netstats g) + 1\<rparr>\<rparr>
       else g))"

text \<open>The label \<^verbatim>\<open>drop\<close>: lines 249 to 254.\<close>

definition exit_drop ::
  "netconfig \<Rightarrow> net_driver_s \<times> ('w::len word, 'cb) globals
   \<Rightarrow> net_driver_s \<times> ('w word, 'cb) globals" where
  "exit_drop K s =
    (case s of (dev, g) \<Rightarrow>
      (dev\<lparr>d_len := 0\<rparr>,
       if CONFIG_NET_STATISTICS K
       then g\<lparr>g_netstats := (g_netstats g)
               \<lparr>icmpv6_drop := icmpv6_drop (g_netstats g) + 1\<rparr>\<rparr>
       else g))"

text \<open>The label \<^verbatim>\<open>typeerr\<close>, which falls through to \<^verbatim>\<open>drop\<close>: lines 244 to 254.\<close>

definition exit_typeerr ::
  "netconfig \<Rightarrow> net_driver_s \<times> ('w::len word, 'cb) globals
   \<Rightarrow> net_driver_s \<times> ('w word, 'cb) globals" where
  "exit_typeerr K s =
    (case s of (dev, g) \<Rightarrow>
      exit_drop K
        (dev,
         if CONFIG_NET_STATISTICS K
         then g\<lparr>g_netstats := (g_netstats g)
                 \<lparr>icmpv6_typeerr := icmpv6_typeerr (g_netstats g) + 1\<rparr>\<rparr>
         else g))"

subsection \<open>The function\<close>

text \<open>
  \<^verbatim>\<open>icmpv6_input\<close>. Two functions of other modules are parameters: \<^verbatim>\<open>icmpv6_chksum\<close>,
  which reads the device structure and returns a 16-bit sum, and
  \<^verbatim>\<open>devif_callback_execute\<close>, which is given the device, the flags and the callback chain
  and returns the flags as the chain leaves them. The chain stands for the Waiter Registry
  of the spec, whose interface takes the packet and a signal and returns a signal: what
  a callback of its own writes to the device structure is not an effect of this function
  and is not part of the model. Each call of the chain is recorded with the flags passed.

  The pointer \<^verbatim>\<open>icmp\<close> of the source is the view \<^verbatim>\<open>ICMPv6BUF\<close> of the buffer: the
  assignments through it are record updates of \<open>icmp\<close>, written back to the device
  where the source reads the device again. The source reads \<^verbatim>\<open>options[0]\<close> and
  \<^verbatim>\<open>options[2]\<close> to \<^verbatim>\<open>options[7]\<close> and writes \<^verbatim>\<open>options[0]\<close> to \<^verbatim>\<open>options[7]\<close>
  without looking at any length; the storage of the buffer of a device is larger than
  the headers and these eight bytes, and the results that depend on the bytes read or
  written assume that the list \<open>options\<close> has them. The debug output of the source has
  no effect and is left out.
\<close>

definition icmpv6_input ::
  "netconfig \<Rightarrow> (net_driver_s \<Rightarrow> 16 word)
   \<Rightarrow> (net_driver_s \<Rightarrow> 16 word \<Rightarrow> 'cb list \<Rightarrow> 16 word)
   \<Rightarrow> net_driver_s \<Rightarrow> ('w::len word, 'cb) globals
   \<Rightarrow> net_driver_s \<times> ('w word, 'cb) globals" where
  "icmpv6_input K icmpv6_chksum devif_callback_execute dev0 g0 =
    (let g = (if CONFIG_NET_STATISTICS K
              then g0\<lparr>g_netstats := (g_netstats g0)
                       \<lparr>icmpv6_recv := icmpv6_recv (g_netstats g0) + 1\<rparr>\<rparr>
              else g0);
         dev = dev0\<lparr>d_flags := IFF_SET_IPv6 K (d_flags dev0)\<rparr>;
         icmp = ICMPv6BUF dev
     in
       if type icmp = ICMPv6_NEIGHBOR_SOLICIT then
         if net_ipv6addr_cmp (icmpv6data icmp) (d_ipv6addr dev) then
           let g = (if options icmp ! 0 = ICMPv6_OPTION_SOURCE_LINK_ADDRESS K
                    then net_neighbor_add (srcipaddr icmp)
                           (take IFHWADDRLEN (drop 2 (options icmp))) g
                    else g);
               icmp = icmp\<lparr>type := ICMPv6_NEIGHBOR_ADVERTISE K\<rparr>;
               icmp = icmp\<lparr>flags := ICMPv6_FLAG_S K\<rparr>;
               icmp = icmp\<lparr>reserved1 := 0\<rparr>;
               icmp = icmp\<lparr>reserved2 := 0\<rparr>;
               icmp = icmp\<lparr>reserved3 := 0\<rparr>;
               icmp = icmp\<lparr>destipaddr := srcipaddr icmp\<rparr>;
               icmp = icmp\<lparr>srcipaddr := d_ipv6addr dev\<rparr>;
               icmp = icmp\<lparr>options :=
                        (options icmp)[0 := ICMPv6_OPTION_TARGET_LINK_ADDRESS K]\<rparr>;
               icmp = icmp\<lparr>options := (options icmp)[1 := 1]\<rparr>;
               icmp = icmp\<lparr>options := memcpy (options icmp) 2 (d_mac dev) IFHWADDRLEN\<rparr>;
               icmp = icmp\<lparr>icmpv6chksum := 0\<rparr>;
               icmp = icmp\<lparr>icmpv6chksum :=
                        NOT (icmpv6_chksum (dev\<lparr>ICMPv6BUF := icmp\<rparr>))\<rparr>;
               dev = dev\<lparr>ICMPv6BUF := icmp\<rparr>;
               dev = (if CONFIG_NET_ETHERNET K \<and>
                         (if CONFIG_NET_MULTILINK K
                          then d_lltype dev = NET_LL_ETHERNET K else True)
                      then
                        let eth = ETHBUF dev;
                            eth = eth\<lparr>dest := memcpy (dest eth) 0 (src eth) ETHER_ADDR_LEN\<rparr>;
                            eth = eth\<lparr>src := memcpy (src eth) 0 (d_mac dev) ETHER_ADDR_LEN\<rparr>
                        in dev\<lparr>ETHBUF := eth\<rparr>
                      else dev)
           in exit_sent K (dev, g)
         else exit_drop K (dev, g)
       else if type icmp = ICMPv6_ECHO_REQUEST then
         let icmp = icmp\<lparr>type := ICMPv6_ECHO_REPLY\<rparr>;
             icmp = icmp\<lparr>destipaddr := srcipaddr icmp\<rparr>;
             icmp = icmp\<lparr>srcipaddr := d_ipv6addr dev\<rparr>;
             icmp = icmp\<lparr>icmpv6chksum := 0\<rparr>;
             icmp = icmp\<lparr>icmpv6chksum :=
                      NOT (icmpv6_chksum (dev\<lparr>ICMPv6BUF := icmp\<rparr>))\<rparr>
         in exit_sent K (dev\<lparr>ICMPv6BUF := icmp\<rparr>, g)
       else if CONFIG_NET_ICMPv6v6_PING K \<and> type icmp = ICMPv6_ECHO_REPLY
               \<and> g_echocallback g \<noteq> [] then
         let flags0 = ICMPv6_ECHOREPLY K;
             flags1 = (if g_echocallback g \<noteq> []
                       then devif_callback_execute dev flags0 (g_echocallback g)
                       else flags0);
             g = (if g_echocallback g \<noteq> []
                  then g\<lparr>calls := calls g @ [DEVIF_CALLBACK_EXECUTE flags0]\<rparr>
                  else g)
         in if flags1 = ICMPv6_ECHOREPLY K then exit_drop K (dev, g)
            else exit_sent K (dev, g)
       else exit_typeerr K (dev, g))"

subsection \<open>The checksum and the wire view of the message\<close>

text \<open>
  Modelled from the spec: \<^verbatim>\<open>icmpv6_chksum\<close> of the utilities module, which is not among
  the sources. The Checksum Engine computes the one's-complement sum of the 16-bit words
  of the pseudo-header (source address, destination address, length, next header)
  followed by the ICMPv6 message; a message validates when the sum over these words,
  the checksum field included, is all ones. \<open>add1c\<close> is the addition of one's-complement
  arithmetic: the carry out of bit 15 is added back in.
\<close>

definition add1c :: "16 word \<Rightarrow> 16 word \<Rightarrow> 16 word" where
  "add1c a b = (let s = unat a + unat b in of_nat (s mod 65536 + s div 65536))"

definition sum1c :: "16 word list \<Rightarrow> 16 word" where
  "sum1c ws = fold add1c ws 0"

definition word_of_bytes :: "8 word \<Rightarrow> 8 word \<Rightarrow> 16 word" where
  "word_of_bytes hi lo = push_bit 8 (ucast hi) OR ucast lo"

fun words_of_bytes :: "8 word list \<Rightarrow> 16 word list" where
  "words_of_bytes (a # b # bs) = word_of_bytes a b # words_of_bytes bs"
| "words_of_bytes [a] = [word_of_bytes a 0]"
| "words_of_bytes [] = []"

definition bytes_of_word16 :: "16 word \<Rightarrow> 8 word list" where
  "bytes_of_word16 w = [ucast (drop_bit 8 w), ucast w]"

definition bytes_of_ipv6addr :: "net_ipv6addr_t \<Rightarrow> 8 word list" where
  "bytes_of_ipv6addr a = map (\<lambda>i. ucast (drop_bit (8 * i) a)) (rev [0..<16])"

text \<open>
  Modelled from the spec: the wire layout of the ICMPv6 message, type (1 byte), code (1),
  checksum (2), four type-specific bytes, then the target address of Neighbor Discovery
  and the options, or the payload of an echo message. The message has as many bytes as
  the payload length of the IPv6 header says.
\<close>

definition icmpv6_message :: "icmpv6_iphdr_s \<Rightarrow> 8 word list" where
  "icmpv6_message h =
     take (unat (len h))
       ([type h, code h] @ bytes_of_word16 (icmpv6chksum h)
        @ [flags h, reserved1 h, reserved2 h, reserved3 h]
        @ bytes_of_ipv6addr (icmpv6data h) @ options h)"

definition pseudo_header :: "icmpv6_iphdr_s \<Rightarrow> 8 word list" where
  "pseudo_header h =
     bytes_of_ipv6addr (srcipaddr h) @ bytes_of_ipv6addr (destipaddr h)
     @ [0, 0] @ bytes_of_word16 (len h) @ [0, 0, 0, proto h]"

definition chksum_words :: "icmpv6_iphdr_s \<Rightarrow> 16 word list" where
  "chksum_words h = words_of_bytes (pseudo_header h) @ words_of_bytes (icmpv6_message h)"

definition spec_icmpv6_chksum :: "net_driver_s \<Rightarrow> 16 word" where
  "spec_icmpv6_chksum dev = sum1c (chksum_words (ICMPv6BUF dev))"

definition chksum_valid :: "icmpv6_iphdr_s \<Rightarrow> bool" where
  "chksum_valid h = (sum1c (chksum_words h) = 0xFFFF)"

text \<open>
  Modelled from the spec: the echo view of the message. Behind the checksum come the
  identifier (2 bytes), the sequence number (2 bytes) and the payload.
\<close>

definition echo_id :: "icmpv6_iphdr_s \<Rightarrow> 8 word list" where
  "echo_id h = [flags h, reserved1 h]"

definition echo_seqno :: "icmpv6_iphdr_s \<Rightarrow> 8 word list" where
  "echo_seqno h = [reserved2 h, reserved3 h]"

definition echo_payload :: "icmpv6_iphdr_s \<Rightarrow> 8 word list" where
  "echo_payload h = take (unat (len h) - 8) (bytes_of_ipv6addr (icmpv6data h) @ options h)"

text \<open>
  Modelled from the spec: the option bytes of a Neighbor Discovery message that lie
  inside the declared length of the buffer. The options start 64 bytes behind the
  link-layer header: the IPv6 header has 40 bytes, the ICMPv6 header 4, the flags and
  reserved bytes 4 and the target address 16. An option is one byte of type, one byte
  of length in units of eight bytes, and its value.
\<close>

definition opt_room :: "netconfig \<Rightarrow> net_driver_s \<Rightarrow> nat" where
  "opt_room K dev = unat (d_len dev) - (NET_LL_HDRLEN K + 64)"

definition option_bytes :: "netconfig \<Rightarrow> net_driver_s \<Rightarrow> 8 word list" where
  "option_bytes K dev = take (opt_room K dev) (options (ICMPv6BUF dev))"

subsection \<open>Example inputs\<close>

text \<open>
  A build with statistics, Ethernet and the echo callbacks, with the constants of
  RFC 4861 and a 14-byte Ethernet header.
\<close>

definition K0 :: netconfig where
  "K0 = \<lparr>CONFIG_NET_STATISTICS = True, CONFIG_NET_ETHERNET = True,
         CONFIG_NET_MULTILINK = False, CONFIG_NET_ICMPv6v6_PING = True,
         IFF_IPv6 = 8, ICMPv6_NEIGHBOR_ADVERTISE = 136, ICMPv6_FLAG_S = 0x40,
         ICMPv6_OPTION_SOURCE_LINK_ADDRESS = 1, ICMPv6_OPTION_TARGET_LINK_ADDRESS = 2,
         ICMPv6_ECHOREPLY = 0x400, NET_LL_ETHERNET = 0, NET_LL_HDRLEN = 14\<rparr>"

text \<open>
  A Neighbor Solicitation from \<open>fe80::2\<close> to the solicited-node multicast address of
  \<open>fe80::1\<close>, asking for \<open>fe80::1\<close>, with one Source-Link-Layer-Address option: 32 bytes
  of ICMPv6 message, 86 bytes with the IPv6 and Ethernet headers.
\<close>

definition ns_hdr :: icmpv6_iphdr_s where
  "ns_hdr = \<lparr>len = 32, proto = 58,
             srcipaddr = 0xFE800000000000000000000000000002,
             destipaddr = 0xFF0200000000000000000001FF000001,
             type = 135, code = 0, icmpv6chksum = 0x1234,
             flags = 0, reserved1 = 0, reserved2 = 0, reserved3 = 0,
             icmpv6data = 0xFE800000000000000000000000000001,
             options = [1, 1, 2, 0, 0, 0, 0, 2]\<rparr>"

definition ns_dev :: net_driver_s where
  "ns_dev = \<lparr>d_flags = 0, d_lltype = 0, d_mac = [2, 0, 0, 0, 0, 1],
             d_ipv6addr = 0xFE800000000000000000000000000001, d_len = 86,
             ETHBUF = \<lparr>dest = [0x33, 0x33, 0xFF, 0, 0, 1], src = [2, 0, 0, 0, 0, 2]\<rparr>,
             ICMPv6BUF = ns_hdr\<rparr>"

text \<open>
  An Echo Request from \<open>fe80::2\<close> to \<open>fe80::1\<close> with identifier \<open>0x0102\<close>, sequence
  number \<open>0x0007\<close> and 16 bytes of payload.
\<close>

definition echo_hdr :: icmpv6_iphdr_s where
  "echo_hdr = \<lparr>len = 24, proto = 58,
               srcipaddr = 0xFE800000000000000000000000000002,
               destipaddr = 0xFE800000000000000000000000000001,
               type = 128, code = 0, icmpv6chksum = 0x1234,
               flags = 1, reserved1 = 2, reserved2 = 0, reserved3 = 7,
               icmpv6data = 0x000102030405060708090A0B0C0D0E0F,
               options = []\<rparr>"

definition echo_dev :: net_driver_s where
  "echo_dev = ns_dev\<lparr>d_len := 78, ICMPv6BUF := echo_hdr\<rparr>"

text \<open>The globals before the call: some counts, no waiting thread, no call made.\<close>

definition g_init :: "(16 word, nat) globals" where
  "g_init = \<lparr>g_netstats = \<lparr>icmpv6_recv = 10, icmpv6_sent = 4, icmpv6_drop = 3,
                            icmpv6_typeerr = 1, ip_sent = 7\<rparr>,
             g_echocallback = [], calls = []\<rparr>"

text \<open>
  Two callback chains: one whose waiter claims every reply by clearing the flags, one
  whose waiters leave the flags as they are.
\<close>

definition waiter_claims :: "net_driver_s \<Rightarrow> 16 word \<Rightarrow> nat list \<Rightarrow> 16 word" where
  "waiter_claims dev f cbs = 0"

definition waiter_ignores :: "net_driver_s \<Rightarrow> 16 word \<Rightarrow> nat list \<Rightarrow> 16 word" where
  "waiter_ignores dev f cbs = f"

text \<open>The globals with one thread waiting for an echo reply.\<close>

definition g_waiting :: "(16 word, nat) globals" where
  "g_waiting = g_init\<lparr>g_echocallback := [1]\<rparr>"

text \<open>
  The solicitation with a second option (type 14, eight bytes) behind the
  Source-Link-Layer-Address option: 40 bytes of message, 94 bytes in the buffer.
\<close>

definition ns2_dev :: net_driver_s where
  "ns2_dev = ns_dev\<lparr>d_len := 94,
     ICMPv6BUF := ns_hdr\<lparr>len := 40,
       options := [1, 1, 2, 0, 0, 0, 0, 2, 14, 1, 1, 2, 3, 4, 5, 6]\<rparr>\<rparr>"

text \<open>
  The solicitation in a buffer whose declared length ends two bytes into the option:
  the option says eight bytes, two are inside the declared length. The six bytes behind
  them are what the storage of the buffer holds there.
\<close>

definition short_dev :: net_driver_s where
  "short_dev = ns_dev\<lparr>d_len := 80\<rparr>"

text \<open>The solicitation asking for \<open>fe80::3\<close>, which is not the address of the node.\<close>

definition other_dev :: net_driver_s where
  "other_dev = ns_dev\<lparr>ICMPv6BUF := ns_hdr\<lparr>icmpv6data := 0xFE800000000000000000000000000003\<rparr>\<rparr>"

text \<open>An Echo Reply and a message of the unknown type 200.\<close>

definition reply_dev :: net_driver_s where
  "reply_dev = echo_dev\<lparr>ICMPv6BUF := echo_hdr\<lparr>type := 129\<rparr>\<rparr>"

definition unknown_dev :: net_driver_s where
  "unknown_dev = echo_dev\<lparr>ICMPv6BUF := echo_hdr\<lparr>type := 200\<rparr>\<rparr>"

text \<open>
  An Echo Request sent to the all-nodes multicast address \<open>ff02::1\<close> whose source
  address is the address of the node itself.
\<close>

definition spoof_dev :: net_driver_s where
  "spoof_dev = echo_dev\<lparr>ICMPv6BUF := echo_hdr
     \<lparr>srcipaddr := 0xFE800000000000000000000000000001,
      destipaddr := 0xFF020000000000000000000000000001\<rparr>\<rparr>"

section \<open>Properties\<close>

lemmas exits = exit_sent_def exit_drop_def exit_typeerr_def
lemmas codes = ICMPv6_NEIGHBOR_SOLICIT_def ICMPv6_ECHO_REQUEST_def ICMPv6_ECHO_REPLY_def
lemmas examples = K0_def ns_hdr_def ns_dev_def echo_hdr_def echo_dev_def g_init_def
  waiter_claims_def waiter_ignores_def g_waiting_def ns2_dev_def short_dev_def
  other_dev_def reply_dev_def unknown_dev_def spoof_dev_def

subsection \<open>One's-complement sums\<close>

lemma unat16_less: "unat (a :: 16 word) < 65536"
  using unsigned_less [of a] by simp

lemma unat_add1c:
  "unat (add1c a b) =
     (if unat a + unat b < 65536 then unat a + unat b else unat a + unat b - 65535)"
proof -
  define s where "s = unat a + unat b"
  have s: "s < 131071"
    using unat16_less [of a] unat16_less [of b] by (simp add: s_def)
  have "unat (add1c a b) = (s mod 65536 + s div 65536) mod 2 ^ LENGTH(16)"
    unfolding add1c_def Let_def s_def by (simp only: unat_of_nat)
  then have u: "unat (add1c a b) = (s mod 65536 + s div 65536) mod 65536"
    by simp
  show ?thesis
  proof (cases "s < 65536")
    case True
    with u show ?thesis by (simp add: s_def)
  next
    case False
    with s have d: "s div 65536 = 1" by simp
    from False s have m: "s mod 65536 = s - 65536"
      by (simp add: mod_if)
    from False s have e: "s - 65536 + 1 = s - 65535" "s - 65535 < 65536"
      by simp_all
    from u d m have "unat (add1c a b) = (s - 65536 + 1) mod 65536"
      by simp
    with e have "unat (add1c a b) = s - 65535"
      by simp
    with False show ?thesis by (simp add: s_def)
  qed
qed

lemma add1c_commute: "add1c a b = add1c b a"
  by (simp add: add1c_def add.commute)

lemma add1c_zero: "add1c 0 a = a"
  using unat16_less [of a] by (simp add: word_unat_eq_iff unat_add1c)

lemma fold1c_arith:
  fixes x y z :: nat
  assumes "x < 65536" "y < 65536" "z < 65536"
  shows "(if (if x + y < 65536 then x + y else x + y - 65535) + z < 65536
          then (if x + y < 65536 then x + y else x + y - 65535) + z
          else (if x + y < 65536 then x + y else x + y - 65535) + z - 65535) =
         (if x + (if y + z < 65536 then y + z else y + z - 65535) < 65536
          then x + (if y + z < 65536 then y + z else y + z - 65535)
          else x + (if y + z < 65536 then y + z else y + z - 65535) - 65535)"
  using assms by (auto split: if_splits)

lemma add1c_assoc: "add1c (add1c a b) c = add1c a (add1c b c)"
proof -
  have "unat (add1c (add1c a b) c) = unat (add1c a (add1c b c))"
    by (simp only: unat_add1c)
       (rule fold1c_arith [OF unat16_less [of a] unat16_less [of b] unat16_less [of c]])
  then show ?thesis by (simp add: word_unat_eq_iff)
qed

lemma add1c_left_commute: "add1c a (add1c b c) = add1c b (add1c a c)"
  by (metis add1c_assoc add1c_commute)

lemma unat_plus_NOT16: "unat a + unat (NOT a) = 65535" for a :: "16 word"
proof -
  have e: "unat (a + NOT a) = (unat a + unat (NOT a)) mod 2 ^ LENGTH(16)"
    by (rule unat_word_ariths)
  have "a + NOT a = - 1" by (simp add: not_eq_complement)
  moreover have "unat (- 1 :: 16 word) = 65535"
    by (simp add: unsigned_minus_1_eq_mask mask_eq_exp_minus_1)
  ultimately have "unat (a + NOT a) = 65535" by (simp only:)
  with e have m: "(unat a + unat (NOT a)) mod 65536 = 65535"
    by simp
  have "unat a + unat (NOT a) < 131071"
    using unat16_less [of a] unat16_less [of "NOT a"] by simp
  with m show ?thesis by (simp add: mod_if split: if_splits)
qed

lemma add1c_NOT: "add1c (NOT a) a = 0xFFFF"
proof -
  have "unat (add1c (NOT a) a) = 65535"
    using unat_plus_NOT16 [of a] by (simp add: unat_add1c add.commute)
  then show ?thesis by (simp add: word_unat_eq_iff)
qed

lemma fold_add1c_shift: "fold add1c ws (add1c c a) = add1c c (fold add1c ws a)"
proof (induction ws arbitrary: a)
  case Nil
  show ?case by simp
next
  case (Cons w ws)
  have "fold add1c (w # ws) (add1c c a) = fold add1c ws (add1c c (add1c w a))"
    by (simp add: add1c_left_commute)
  also have "\<dots> = add1c c (fold add1c ws (add1c w a))"
    by (rule Cons.IH)
  finally show ?case by simp
qed

lemma sum1c_insert: "sum1c (xs @ c # ys) = add1c c (sum1c (xs @ 0 # ys))"
  by (simp add: sum1c_def fold_add1c_shift add1c_zero)

lemma sum1c_complement: "sum1c (xs @ NOT (sum1c (xs @ 0 # ys)) # ys) = 0xFFFF"
  by (simp only: sum1c_insert [of xs "NOT (sum1c (xs @ 0 # ys))" ys] add1c_NOT)

lemma word_of_bytes_of_word16:
  "word_of_bytes (ucast (drop_bit 8 w)) (ucast w) = w"
  unfolding word_of_bytes_def
  by (rule bit_word_eqI) (auto simp add: bit_simps)

lemma length_bytes_of_word16: "length (bytes_of_word16 w) = 2"
  by (simp add: bytes_of_word16_def)

lemma words_of_bytes_word16:
  "words_of_bytes (bytes_of_word16 w @ bs) = w # words_of_bytes bs"
  by (simp add: bytes_of_word16_def word_of_bytes_of_word16)

lemma chksum_words_split:
  assumes "4 \<le> unat (len h)"
  shows "chksum_words (h\<lparr>icmpv6chksum := c\<rparr>) =
     (words_of_bytes (pseudo_header h) @ [word_of_bytes (type h) (code h)])
     @ c # words_of_bytes (take (unat (len h) - 4)
         ([flags h, reserved1 h, reserved2 h, reserved3 h]
          @ bytes_of_ipv6addr (icmpv6data h) @ options h))"
proof -
  from assms obtain k where "unat (len h) = 4 + k"
    using le_Suc_ex by blast
  then have m: "unat (len h) = Suc (Suc (Suc (Suc k)))" by simp
  have "icmpv6_message (h\<lparr>icmpv6chksum := c\<rparr>) =
     type h # code h # bytes_of_word16 c @ take k
       ([flags h, reserved1 h, reserved2 h, reserved3 h]
        @ bytes_of_ipv6addr (icmpv6data h) @ options h)"
    by (simp add: icmpv6_message_def m length_bytes_of_word16)
  then show ?thesis
    by (simp add: chksum_words_def pseudo_header_def m words_of_bytes_word16)
qed

lemma chksum_valid_recomputed:
  assumes "4 \<le> unat (len h)"
  shows "chksum_valid
    (h\<lparr>icmpv6chksum := NOT (sum1c (chksum_words (h\<lparr>icmpv6chksum := 0\<rparr>)))\<rparr>)"
  unfolding chksum_valid_def chksum_words_split [OF assms]
  by (rule sum1c_complement)

subsection \<open>The branches of the function\<close>

lemma recv_exit_sent:
  "icmpv6_recv (g_netstats (snd (exit_sent K (dev, g)))) = icmpv6_recv (g_netstats g)"
  by (simp add: exit_sent_def)

lemma recv_exit_drop:
  "icmpv6_recv (g_netstats (snd (exit_drop K (dev, g)))) = icmpv6_recv (g_netstats g)"
  by (simp add: exit_drop_def)

lemma recv_exit_typeerr:
  "icmpv6_recv (g_netstats (snd (exit_typeerr K (dev, g)))) = icmpv6_recv (g_netstats g)"
  by (simp add: exit_typeerr_def exit_drop_def)

lemma icmpv6_input_echo_request:
  assumes "type (ICMPv6BUF dev) = ICMPv6_ECHO_REQUEST"
  shows "ICMPv6BUF (fst (icmpv6_input K chk cbx dev g)) =
     (ICMPv6BUF dev)\<lparr>type := ICMPv6_ECHO_REPLY,
        destipaddr := srcipaddr (ICMPv6BUF dev), srcipaddr := d_ipv6addr dev\<rparr>
       \<lparr>icmpv6chksum := NOT (chk
          (dev\<lparr>d_flags := IFF_SET_IPv6 K (d_flags dev),
               ICMPv6BUF := (ICMPv6BUF dev)\<lparr>type := ICMPv6_ECHO_REPLY,
                 destipaddr := srcipaddr (ICMPv6BUF dev), srcipaddr := d_ipv6addr dev\<rparr>
                 \<lparr>icmpv6chksum := 0\<rparr>\<rparr>))\<rparr>"
  using assms
  by (simp add: icmpv6_input_def Let_def exit_sent_def codes)

lemma update_01_overwrite: "xs[Suc 0 := l, 0 := a, Suc 0 := b] = xs[0 := a, Suc 0 := b]"
  by (cases xs) simp_all

lemma take2_update_01:
  "2 \<le> length xs \<Longrightarrow> take 2 (xs[0 := a, Suc 0 := b]) = [a, b]"
  by (cases xs; cases "tl xs") auto

lemma memcpy_option:
  assumes "8 \<le> length xs" and "length mac = IFHWADDRLEN"
  shows "memcpy (xs[0 := a, Suc 0 := b]) 2 mac IFHWADDRLEN = [a, b] @ mac @ drop 8 xs"
proof -
  from assms(1) have "2 \<le> length xs" by simp
  then have "take 2 (xs[0 := a, Suc 0 := b]) = [a, b]"
    by (rule take2_update_01)
  moreover have "drop 8 (xs[0 := a, Suc 0 := b]) = drop 8 xs"
    by simp
  ultimately show ?thesis
    using assms(2) by (simp add: memcpy_def IFHWADDRLEN_def)
qed

section \<open>The claims\<close>

text \<open>
  The counters are machine words: \<open>+ 1\<close> on a counter is the increment of the source,
  which wraps around at the largest value. Where a statement speaks of a counter, the
  build has \<^verbatim>\<open>CONFIG_NET_STATISTICS\<close>: without it the source has no counters.
\<close>

subsection \<open>C1: the length of the first option of a solicitation\<close>

text \<open>
  C1 as the spec states it: a Neighbor Solicitation for the node's address whose first
  option declares a length that extends past the remaining buffer is rejected, with no
  call to the Neighbor Cache, the buffer length set to zero and the dropped counter
  incremented. The source has no such check. In the example the declared length of the
  buffer ends two bytes into the option and the option declares eight bytes; the function
  hands the six bytes behind the declared length to \<^verbatim>\<open>net_neighbor_add\<close>, keeps the
  length 80 and does not count a drop.
\<close>

theorem option_length_unchecked_counterexample:
  "type (ICMPv6BUF short_dev) = ICMPv6_NEIGHBOR_SOLICIT
   \<and> icmpv6data (ICMPv6BUF short_dev) = d_ipv6addr short_dev
   \<and> opt_room K0 short_dev = 2
   \<and> opt_room K0 short_dev < 8 * unat (options (ICMPv6BUF short_dev) ! 1)
   \<and> calls (snd (icmpv6_input K0 spec_icmpv6_chksum waiter_ignores short_dev g_init))
       = [NET_NEIGHBOR_ADD 0xFE800000000000000000000000000002
            (drop (opt_room K0 short_dev) (options (ICMPv6BUF short_dev)))]
   \<and> d_len (fst (icmpv6_input K0 spec_icmpv6_chksum waiter_ignores short_dev g_init)) = 80
   \<and> icmpv6_drop (g_netstats (snd (icmpv6_input K0 spec_icmpv6_chksum waiter_ignores short_dev g_init)))
       = icmpv6_drop (g_netstats g_init)"
  by (simp add: examples codes opt_room_def icmpv6_input_def Let_def exits
      net_ipv6addr_cmp_def net_neighbor_add_def IFHWADDRLEN_def)

text \<open>
  C1, amended: for every Neighbor Solicitation whose target is the node's address,
  whatever length its first option declares, the message is processed and not rejected.
  The length byte of the option has no influence on the result: the function returns
  the same device and globals whatever value the byte holds. The Neighbor Cache upsert is
  issued exactly when the type byte of the first option is Source-Link-Layer-Address,
  with the sender's address and the six bytes behind the two header bytes of the option,
  wherever the declared length ends. The message becomes an advertisement, the buffer
  length is left unchanged and the dropped counter is not incremented.
\<close>

theorem option_length_unchecked:
  assumes "type (ICMPv6BUF dev) = ICMPv6_NEIGHBOR_SOLICIT"
    and "icmpv6data (ICMPv6BUF dev) = d_ipv6addr dev"
  shows "(\<forall>l. icmpv6_input K chk cbx
            (dev\<lparr>ICMPv6BUF := (ICMPv6BUF dev)\<lparr>options := (options (ICMPv6BUF dev))[1 := l]\<rparr>\<rparr>) g
          = icmpv6_input K chk cbx dev g)
    \<and> calls (snd (icmpv6_input K chk cbx dev g))
        = calls g @
          (if options (ICMPv6BUF dev) ! 0 = ICMPv6_OPTION_SOURCE_LINK_ADDRESS K
           then [NET_NEIGHBOR_ADD (srcipaddr (ICMPv6BUF dev))
                   (take IFHWADDRLEN (drop 2 (options (ICMPv6BUF dev))))]
           else [])
    \<and> type (ICMPv6BUF (fst (icmpv6_input K chk cbx dev g))) = ICMPv6_NEIGHBOR_ADVERTISE K
    \<and> d_len (fst (icmpv6_input K chk cbx dev g)) = d_len dev
    \<and> icmpv6_drop (g_netstats (snd (icmpv6_input K chk cbx dev g)))
        = icmpv6_drop (g_netstats g)"
proof (intro conjI allI)
  fix l
  show "icmpv6_input K chk cbx
            (dev\<lparr>ICMPv6BUF := (ICMPv6BUF dev)\<lparr>options := (options (ICMPv6BUF dev))[1 := l]\<rparr>\<rparr>) g
          = icmpv6_input K chk cbx dev g"
    using assms
    by (simp add: icmpv6_input_def Let_def net_ipv6addr_cmp_def update_01_overwrite)
next
  show "calls (snd (icmpv6_input K chk cbx dev g))
        = calls g @
          (if options (ICMPv6BUF dev) ! 0 = ICMPv6_OPTION_SOURCE_LINK_ADDRESS K
           then [NET_NEIGHBOR_ADD (srcipaddr (ICMPv6BUF dev))
                   (take IFHWADDRLEN (drop 2 (options (ICMPv6BUF dev))))]
           else [])"
    using assms
    by (simp add: icmpv6_input_def Let_def net_ipv6addr_cmp_def exit_sent_def net_neighbor_add_def)
next
  show "type (ICMPv6BUF (fst (icmpv6_input K chk cbx dev g))) = ICMPv6_NEIGHBOR_ADVERTISE K"
    using assms
    by (simp add: icmpv6_input_def Let_def net_ipv6addr_cmp_def exit_sent_def)
next
  show "d_len (fst (icmpv6_input K chk cbx dev g)) = d_len dev"
    using assms
    by (simp add: icmpv6_input_def Let_def net_ipv6addr_cmp_def exit_sent_def)
next
  show "icmpv6_drop (g_netstats (snd (icmpv6_input K chk cbx dev g)))
        = icmpv6_drop (g_netstats g)"
    using assms
    by (simp add: icmpv6_input_def Let_def net_ipv6addr_cmp_def exit_sent_def net_neighbor_add_def)
qed

text \<open>
  The amended statement at the solicitation whose declared length ends inside the
  option.
\<close>

theorem option_length_unchecked_witness:
  "type (ICMPv6BUF short_dev) = ICMPv6_NEIGHBOR_SOLICIT
   \<and> icmpv6data (ICMPv6BUF short_dev) = d_ipv6addr short_dev
   \<and> icmpv6_input K0 spec_icmpv6_chksum waiter_ignores
       (short_dev\<lparr>ICMPv6BUF := (ICMPv6BUF short_dev)
          \<lparr>options := (options (ICMPv6BUF short_dev))[1 := 255]\<rparr>\<rparr>) g_init
       = icmpv6_input K0 spec_icmpv6_chksum waiter_ignores short_dev g_init
   \<and> calls (snd (icmpv6_input K0 spec_icmpv6_chksum waiter_ignores short_dev g_init))
       = [NET_NEIGHBOR_ADD 0xFE800000000000000000000000000002 [2, 0, 0, 0, 0, 2]]
   \<and> type (ICMPv6BUF (fst (icmpv6_input K0 spec_icmpv6_chksum waiter_ignores short_dev g_init))) = 136
   \<and> d_len (fst (icmpv6_input K0 spec_icmpv6_chksum waiter_ignores short_dev g_init)) = 80
   \<and> icmpv6_drop (g_netstats (snd (icmpv6_input K0 spec_icmpv6_chksum waiter_ignores short_dev g_init))) = 3"
  using option_length_unchecked [of short_dev K0 spec_icmpv6_chksum waiter_ignores g_init]
  by (simp add: examples codes IFHWADDRLEN_def)

subsection \<open>C2: a solicitation for the node's address becomes an advertisement\<close>

text \<open>
  C2 as the spec states it: after a solicitation whose first option is a well-formed
  Source-Link-Layer-Address option, the option list of the advertisement is a single
  Target-Link-Layer-Address option. The source overwrites the first eight option bytes
  and changes neither the declared length nor the bytes behind them. In the example
  the solicitation carries a second option; the advertisement carries it too, behind
  the Target-Link-Layer-Address option.
\<close>

theorem solicit_advertised_counterexample:
  "type (ICMPv6BUF ns2_dev) = ICMPv6_NEIGHBOR_SOLICIT
   \<and> icmpv6data (ICMPv6BUF ns2_dev) = d_ipv6addr ns2_dev
   \<and> options (ICMPv6BUF ns2_dev) ! 0 = ICMPv6_OPTION_SOURCE_LINK_ADDRESS K0
   \<and> options (ICMPv6BUF ns2_dev) ! 1 = 1
   \<and> 8 \<le> opt_room K0 ns2_dev
   \<and> option_bytes K0 (fst (icmpv6_input K0 spec_icmpv6_chksum waiter_ignores ns2_dev g_init))
       = [2, 1, 2, 0, 0, 0, 0, 1, 14, 1, 1, 2, 3, 4, 5, 6]
   \<and> option_bytes K0 (fst (icmpv6_input K0 spec_icmpv6_chksum waiter_ignores ns2_dev g_init))
       \<noteq> [ICMPv6_OPTION_TARGET_LINK_ADDRESS K0, 1] @ d_mac ns2_dev"
  by (simp add: examples codes opt_room_def option_bytes_def icmpv6_input_def Let_def exits
      net_ipv6addr_cmp_def net_neighbor_add_def IFHWADDRLEN_def ETHER_ADDR_LEN_def memcpy_def)

text \<open>
  C2, amended: for every Neighbor Solicitation whose target is the node's address and
  whose first option is a well-formed Source-Link-Layer-Address option (type byte
  Source-Link-Layer-Address, length byte 1, its eight bytes inside the declared length,
  the declared length inside the storage of the buffer; the hardware address of the node
  has six octets), the Neighbor Cache receives exactly one call, with the sender's IPv6
  address and the six address bytes of the option, and the buffer is rewritten in place:
  the type is Advertisement, the flags byte is the Solicited flag, the three reserved
  bytes are zero, the destination is the original source address, the source is the
  node's address, and the first eight option bytes are a Target-Link-Layer-Address option
  of length 1 with the node's hardware address. The option bytes behind the first eight
  are left as they were, so the option list is that single option when the solicitation
  carried eight bytes of options. The checksum field is the complement of what
  \<^verbatim>\<open>icmpv6_chksum\<close> returns for the rewritten message with a zero checksum field, computed
  before the Ethernet header is rewritten. The declared length is unchanged.
\<close>

theorem solicit_advertised:
  assumes "type (ICMPv6BUF dev) = ICMPv6_NEIGHBOR_SOLICIT"
    and "icmpv6data (ICMPv6BUF dev) = d_ipv6addr dev"
    and "options (ICMPv6BUF dev) ! 0 = ICMPv6_OPTION_SOURCE_LINK_ADDRESS K"
    and "options (ICMPv6BUF dev) ! 1 = 1"
    and "8 \<le> opt_room K dev"
    and "opt_room K dev \<le> length (options (ICMPv6BUF dev))"
    and "length (d_mac dev) = IFHWADDRLEN"
  shows "calls (snd (icmpv6_input K chk cbx dev g))
        = calls g @ [NET_NEIGHBOR_ADD (srcipaddr (ICMPv6BUF dev))
                       (take IFHWADDRLEN (drop 2 (options (ICMPv6BUF dev))))]
    \<and> type (ICMPv6BUF (fst (icmpv6_input K chk cbx dev g))) = ICMPv6_NEIGHBOR_ADVERTISE K
    \<and> flags (ICMPv6BUF (fst (icmpv6_input K chk cbx dev g))) = ICMPv6_FLAG_S K
    \<and> reserved1 (ICMPv6BUF (fst (icmpv6_input K chk cbx dev g))) = 0
    \<and> reserved2 (ICMPv6BUF (fst (icmpv6_input K chk cbx dev g))) = 0
    \<and> reserved3 (ICMPv6BUF (fst (icmpv6_input K chk cbx dev g))) = 0
    \<and> destipaddr (ICMPv6BUF (fst (icmpv6_input K chk cbx dev g))) = srcipaddr (ICMPv6BUF dev)
    \<and> srcipaddr (ICMPv6BUF (fst (icmpv6_input K chk cbx dev g))) = d_ipv6addr dev
    \<and> options (ICMPv6BUF (fst (icmpv6_input K chk cbx dev g)))
        = [ICMPv6_OPTION_TARGET_LINK_ADDRESS K, 1] @ d_mac dev
          @ drop 8 (options (ICMPv6BUF dev))
    \<and> (opt_room K dev = 8 \<longrightarrow>
         option_bytes K (fst (icmpv6_input K chk cbx dev g))
         = [ICMPv6_OPTION_TARGET_LINK_ADDRESS K, 1] @ d_mac dev)
    \<and> icmpv6chksum (ICMPv6BUF (fst (icmpv6_input K chk cbx dev g)))
        = NOT (chk ((fst (icmpv6_input K chk cbx dev g))
                 \<lparr>ETHBUF := ETHBUF dev,
                  ICMPv6BUF := (ICMPv6BUF (fst (icmpv6_input K chk cbx dev g)))
                    \<lparr>icmpv6chksum := 0\<rparr>\<rparr>))
    \<and> d_len (fst (icmpv6_input K chk cbx dev g)) = d_len dev"
proof -
  let ?R = "icmpv6_input K chk cbx dev g"
  from assms(5,6) have len8: "8 \<le> length (options (ICMPv6BUF dev))"
    by simp
  note opt = memcpy_option [OF len8 assms(7)]
  have c: "calls (snd ?R)
        = calls g @ [NET_NEIGHBOR_ADD (srcipaddr (ICMPv6BUF dev))
                       (take IFHWADDRLEN (drop 2 (options (ICMPv6BUF dev))))]"
    using assms(1,2,3)
    by (simp add: icmpv6_input_def Let_def net_ipv6addr_cmp_def exit_sent_def net_neighbor_add_def)
  have f: "type (ICMPv6BUF (fst ?R)) = ICMPv6_NEIGHBOR_ADVERTISE K"
    "flags (ICMPv6BUF (fst ?R)) = ICMPv6_FLAG_S K"
    "reserved1 (ICMPv6BUF (fst ?R)) = 0"
    "reserved2 (ICMPv6BUF (fst ?R)) = 0"
    "reserved3 (ICMPv6BUF (fst ?R)) = 0"
    "destipaddr (ICMPv6BUF (fst ?R)) = srcipaddr (ICMPv6BUF dev)"
    "srcipaddr (ICMPv6BUF (fst ?R)) = d_ipv6addr dev"
    "d_len (fst ?R) = d_len dev"
    using assms(1,2)
    by (simp_all add: icmpv6_input_def Let_def net_ipv6addr_cmp_def exit_sent_def)
  have o: "options (ICMPv6BUF (fst ?R))
        = [ICMPv6_OPTION_TARGET_LINK_ADDRESS K, 1] @ d_mac dev
          @ drop 8 (options (ICMPv6BUF dev))"
    using assms(1,2)
    by (simp add: icmpv6_input_def Let_def net_ipv6addr_cmp_def exit_sent_def opt)
  have r: "opt_room K (fst ?R) = opt_room K dev"
    by (simp add: opt_room_def f(8))
  have b: "opt_room K dev = 8 \<longrightarrow>
         option_bytes K (fst ?R) = [ICMPv6_OPTION_TARGET_LINK_ADDRESS K, 1] @ d_mac dev"
    using assms(7) by (simp add: option_bytes_def r o IFHWADDRLEN_def)
  have k: "icmpv6chksum (ICMPv6BUF (fst ?R))
        = NOT (chk ((fst ?R)\<lparr>ETHBUF := ETHBUF dev,
                  ICMPv6BUF := (ICMPv6BUF (fst ?R))\<lparr>icmpv6chksum := 0\<rparr>\<rparr>))"
    using assms(1,2)
    by (simp add: icmpv6_input_def Let_def net_ipv6addr_cmp_def exit_sent_def)
  from c f o b k show ?thesis by simp
qed

text \<open>
  The amended statement at the solicitation with one option.
\<close>

theorem solicit_advertised_witness:
  "type (ICMPv6BUF ns_dev) = ICMPv6_NEIGHBOR_SOLICIT
   \<and> icmpv6data (ICMPv6BUF ns_dev) = d_ipv6addr ns_dev
   \<and> options (ICMPv6BUF ns_dev) ! 0 = ICMPv6_OPTION_SOURCE_LINK_ADDRESS K0
   \<and> options (ICMPv6BUF ns_dev) ! 1 = 1
   \<and> opt_room K0 ns_dev = 8
   \<and> opt_room K0 ns_dev \<le> length (options (ICMPv6BUF ns_dev))
   \<and> length (d_mac ns_dev) = IFHWADDRLEN
   \<and> calls (snd (icmpv6_input K0 spec_icmpv6_chksum waiter_ignores ns_dev g_init))
       = [NET_NEIGHBOR_ADD 0xFE800000000000000000000000000002 [2, 0, 0, 0, 0, 2]]
   \<and> type (ICMPv6BUF (fst (icmpv6_input K0 spec_icmpv6_chksum waiter_ignores ns_dev g_init))) = 136
   \<and> flags (ICMPv6BUF (fst (icmpv6_input K0 spec_icmpv6_chksum waiter_ignores ns_dev g_init))) = 0x40
   \<and> destipaddr (ICMPv6BUF (fst (icmpv6_input K0 spec_icmpv6_chksum waiter_ignores ns_dev g_init)))
       = 0xFE800000000000000000000000000002
   \<and> srcipaddr (ICMPv6BUF (fst (icmpv6_input K0 spec_icmpv6_chksum waiter_ignores ns_dev g_init)))
       = 0xFE800000000000000000000000000001
   \<and> option_bytes K0 (fst (icmpv6_input K0 spec_icmpv6_chksum waiter_ignores ns_dev g_init))
       = [2, 1, 2, 0, 0, 0, 0, 1]
   \<and> d_len (fst (icmpv6_input K0 spec_icmpv6_chksum waiter_ignores ns_dev g_init)) = 86"
  using solicit_advertised [of ns_dev K0 spec_icmpv6_chksum waiter_ignores g_init]
  by (simp add: examples codes opt_room_def IFHWADDRLEN_def)

subsection \<open>C3: an Echo Request becomes an Echo Reply\<close>

text \<open>
  C3: for every Echo Request, whatever its identifier, sequence number and payload,
  the function does not drop the message and counts no error: the declared length, the
  dropped counter and the type-error counter are unchanged. The buffer is rewritten in
  place to an Echo Reply: the code byte, the identifier, the sequence number and the
  payload are unmodified, the destination is the original source address, the source
  is the node's address. With the Checksum Engine of the spec, the one's-complement sum
  over the pseudo-header and the rewritten message, the recomputed checksum validates:
  the sum with the checksum field included is all ones. The checksum field lies inside
  the message when the payload length of the IPv6 header covers the four bytes of the
  ICMPv6 header, which every echo message, with its eight bytes of header, does.
\<close>

theorem echo_request_answered:
  assumes "type (ICMPv6BUF dev) = ICMPv6_ECHO_REQUEST"
    and "4 \<le> unat (len (ICMPv6BUF dev))"
  shows "d_len (fst (icmpv6_input K spec_icmpv6_chksum cbx dev g)) = d_len dev
    \<and> icmpv6_drop (g_netstats (snd (icmpv6_input K spec_icmpv6_chksum cbx dev g)))
        = icmpv6_drop (g_netstats g)
    \<and> icmpv6_typeerr (g_netstats (snd (icmpv6_input K spec_icmpv6_chksum cbx dev g)))
        = icmpv6_typeerr (g_netstats g)
    \<and> type (ICMPv6BUF (fst (icmpv6_input K spec_icmpv6_chksum cbx dev g))) = ICMPv6_ECHO_REPLY
    \<and> code (ICMPv6BUF (fst (icmpv6_input K spec_icmpv6_chksum cbx dev g))) = code (ICMPv6BUF dev)
    \<and> echo_id (ICMPv6BUF (fst (icmpv6_input K spec_icmpv6_chksum cbx dev g)))
        = echo_id (ICMPv6BUF dev)
    \<and> echo_seqno (ICMPv6BUF (fst (icmpv6_input K spec_icmpv6_chksum cbx dev g)))
        = echo_seqno (ICMPv6BUF dev)
    \<and> echo_payload (ICMPv6BUF (fst (icmpv6_input K spec_icmpv6_chksum cbx dev g)))
        = echo_payload (ICMPv6BUF dev)
    \<and> destipaddr (ICMPv6BUF (fst (icmpv6_input K spec_icmpv6_chksum cbx dev g)))
        = srcipaddr (ICMPv6BUF dev)
    \<and> srcipaddr (ICMPv6BUF (fst (icmpv6_input K spec_icmpv6_chksum cbx dev g)))
        = d_ipv6addr dev
    \<and> chksum_valid (ICMPv6BUF (fst (icmpv6_input K spec_icmpv6_chksum cbx dev g)))"
proof -
  let ?R = "icmpv6_input K spec_icmpv6_chksum cbx dev g"
  let ?h = "(ICMPv6BUF dev)\<lparr>type := ICMPv6_ECHO_REPLY,
        destipaddr := srcipaddr (ICMPv6BUF dev), srcipaddr := d_ipv6addr dev\<rparr>"
  have len: "4 \<le> unat (len ?h)"
    using assms(2) by simp
  have buf: "ICMPv6BUF (fst ?R) =
      ?h\<lparr>icmpv6chksum := NOT (sum1c (chksum_words (?h\<lparr>icmpv6chksum := 0\<rparr>)))\<rparr>"
    by (simp add: icmpv6_input_echo_request [OF assms(1)] spec_icmpv6_chksum_def)
  have valid: "chksum_valid (ICMPv6BUF (fst ?R))"
    unfolding buf by (rule chksum_valid_recomputed [OF len])
  have frame: "d_len (fst ?R) = d_len dev"
    "icmpv6_drop (g_netstats (snd ?R)) = icmpv6_drop (g_netstats g)"
    "icmpv6_typeerr (g_netstats (snd ?R)) = icmpv6_typeerr (g_netstats g)"
    using assms(1) by (simp_all add: icmpv6_input_def Let_def exit_sent_def codes)
  have fields: "type (ICMPv6BUF (fst ?R)) = ICMPv6_ECHO_REPLY"
    "code (ICMPv6BUF (fst ?R)) = code (ICMPv6BUF dev)"
    "echo_id (ICMPv6BUF (fst ?R)) = echo_id (ICMPv6BUF dev)"
    "echo_seqno (ICMPv6BUF (fst ?R)) = echo_seqno (ICMPv6BUF dev)"
    "echo_payload (ICMPv6BUF (fst ?R)) = echo_payload (ICMPv6BUF dev)"
    "destipaddr (ICMPv6BUF (fst ?R)) = srcipaddr (ICMPv6BUF dev)"
    "srcipaddr (ICMPv6BUF (fst ?R)) = d_ipv6addr dev"
    unfolding buf by (simp_all add: echo_id_def echo_seqno_def echo_payload_def)
  from frame fields valid show ?thesis by simp
qed

text \<open>
  The statement at the example Echo Request.
\<close>

theorem echo_request_answered_witness:
  "type (ICMPv6BUF echo_dev) = ICMPv6_ECHO_REQUEST
   \<and> 4 \<le> unat (len (ICMPv6BUF echo_dev))
   \<and> d_len (fst (icmpv6_input K0 spec_icmpv6_chksum waiter_ignores echo_dev g_init)) = 78
   \<and> type (ICMPv6BUF (fst (icmpv6_input K0 spec_icmpv6_chksum waiter_ignores echo_dev g_init))) = 129
   \<and> echo_id (ICMPv6BUF (fst (icmpv6_input K0 spec_icmpv6_chksum waiter_ignores echo_dev g_init))) = [1, 2]
   \<and> echo_seqno (ICMPv6BUF (fst (icmpv6_input K0 spec_icmpv6_chksum waiter_ignores echo_dev g_init))) = [0, 7]
   \<and> destipaddr (ICMPv6BUF (fst (icmpv6_input K0 spec_icmpv6_chksum waiter_ignores echo_dev g_init)))
       = 0xFE800000000000000000000000000002
   \<and> srcipaddr (ICMPv6BUF (fst (icmpv6_input K0 spec_icmpv6_chksum waiter_ignores echo_dev g_init)))
       = 0xFE800000000000000000000000000001
   \<and> chksum_valid (ICMPv6BUF (fst (icmpv6_input K0 spec_icmpv6_chksum waiter_ignores echo_dev g_init)))"
  using echo_request_answered [of echo_dev K0 waiter_ignores g_init]
  by (simp add: examples codes echo_id_def echo_seqno_def)

subsection \<open>C4: an Echo Reply that nobody waits for\<close>

text \<open>
  C4 as the spec states it: an Echo Reply that arrives while no callback is registered
  leaves the type-error counter unchanged. In the source the branch for Echo Replies is
  taken only when \<^verbatim>\<open>g_echocallback\<close> is not null; otherwise the message reaches the
  final \<^verbatim>\<open>else\<close> and jumps to \<^verbatim>\<open>typeerr\<close>. In the example the type-error counter
  changes.
\<close>

theorem echo_reply_no_waiter_counterexample:
  "type (ICMPv6BUF reply_dev) = ICMPv6_ECHO_REPLY
   \<and> g_echocallback g_init = []
   \<and> d_len (fst (icmpv6_input K0 spec_icmpv6_chksum waiter_claims reply_dev g_init)) = 0
   \<and> icmpv6_drop (g_netstats (snd (icmpv6_input K0 spec_icmpv6_chksum waiter_claims reply_dev g_init)))
       = icmpv6_drop (g_netstats g_init) + 1
   \<and> icmpv6_typeerr (g_netstats (snd (icmpv6_input K0 spec_icmpv6_chksum waiter_claims reply_dev g_init)))
       \<noteq> icmpv6_typeerr (g_netstats g_init)"
  by (simp add: examples codes icmpv6_input_def Let_def exits)

text \<open>
  C4, amended: for every Echo Reply that arrives while no callback is registered, the
  buffer length is set to zero, the dropped counter is incremented by one and the
  type-error counter is incremented by one; no call is made. This holds with and without
  \<^verbatim>\<open>CONFIG_NET_ICMPv6v6_PING\<close>.
\<close>

theorem echo_reply_no_waiter:
  assumes "type (ICMPv6BUF dev) = ICMPv6_ECHO_REPLY"
    and "g_echocallback g = []"
    and "CONFIG_NET_STATISTICS K"
  shows "d_len (fst (icmpv6_input K chk cbx dev g)) = 0
    \<and> icmpv6_drop (g_netstats (snd (icmpv6_input K chk cbx dev g)))
        = icmpv6_drop (g_netstats g) + 1
    \<and> icmpv6_typeerr (g_netstats (snd (icmpv6_input K chk cbx dev g)))
        = icmpv6_typeerr (g_netstats g) + 1
    \<and> calls (snd (icmpv6_input K chk cbx dev g)) = calls g"
  using assms
  by (simp add: icmpv6_input_def Let_def exit_typeerr_def exit_drop_def codes)

text \<open>
  The amended statement at the example Echo Reply.
\<close>

theorem echo_reply_no_waiter_witness:
  "type (ICMPv6BUF reply_dev) = ICMPv6_ECHO_REPLY
   \<and> g_echocallback g_init = []
   \<and> CONFIG_NET_STATISTICS K0
   \<and> d_len (fst (icmpv6_input K0 spec_icmpv6_chksum waiter_claims reply_dev g_init)) = 0
   \<and> icmpv6_drop (g_netstats (snd (icmpv6_input K0 spec_icmpv6_chksum waiter_claims reply_dev g_init))) = 4
   \<and> icmpv6_typeerr (g_netstats (snd (icmpv6_input K0 spec_icmpv6_chksum waiter_claims reply_dev g_init))) = 2
   \<and> calls (snd (icmpv6_input K0 spec_icmpv6_chksum waiter_claims reply_dev g_init)) = []"
  using echo_reply_no_waiter [of reply_dev g_init K0 spec_icmpv6_chksum waiter_claims]
  by (simp add: examples codes)

subsection \<open>C5: the addresses of a reply\<close>

text \<open>
  C5 as the spec states it: the source and destination addresses of an emitted reply
  are equal only if those of the inbound message were. The source does not swap the
  addresses: the destination becomes the inbound source and the source becomes the
  address of the node, and the inbound destination is not read. In the example an Echo
  Request to a multicast address carries the node's own address as its source; the
  reply has the node's address in both fields.
\<close>

theorem reply_addresses_counterexample:
  "type (ICMPv6BUF spoof_dev) = ICMPv6_ECHO_REQUEST
   \<and> srcipaddr (ICMPv6BUF spoof_dev) \<noteq> destipaddr (ICMPv6BUF spoof_dev)
   \<and> d_len (fst (icmpv6_input K0 spec_icmpv6_chksum waiter_ignores spoof_dev g_init)) = 78
   \<and> type (ICMPv6BUF (fst (icmpv6_input K0 spec_icmpv6_chksum waiter_ignores spoof_dev g_init)))
       = ICMPv6_ECHO_REPLY
   \<and> srcipaddr (ICMPv6BUF (fst (icmpv6_input K0 spec_icmpv6_chksum waiter_ignores spoof_dev g_init)))
       = destipaddr (ICMPv6BUF (fst (icmpv6_input K0 spec_icmpv6_chksum waiter_ignores spoof_dev g_init)))"
  by (simp add: examples codes icmpv6_input_def Let_def exits)

text \<open>
  C5, amended: for every message on which the function emits a reply (a Neighbor
  Solicitation for the node's address, or an Echo Request), the destination of the reply
  is the inbound source address and its source is the address of the node. The two are
  equal exactly when the inbound source address is the address of the node. So, where the
  inbound message was addressed to the node's address, they are equal only if the inbound
  source and destination were already equal.
\<close>

theorem reply_addresses:
  assumes "type (ICMPv6BUF dev) = ICMPv6_NEIGHBOR_SOLICIT
             \<and> icmpv6data (ICMPv6BUF dev) = d_ipv6addr dev
           \<or> type (ICMPv6BUF dev) = ICMPv6_ECHO_REQUEST"
  shows "destipaddr (ICMPv6BUF (fst (icmpv6_input K chk cbx dev g))) = srcipaddr (ICMPv6BUF dev)
    \<and> srcipaddr (ICMPv6BUF (fst (icmpv6_input K chk cbx dev g))) = d_ipv6addr dev
    \<and> (srcipaddr (ICMPv6BUF (fst (icmpv6_input K chk cbx dev g)))
          = destipaddr (ICMPv6BUF (fst (icmpv6_input K chk cbx dev g)))
        \<longleftrightarrow> srcipaddr (ICMPv6BUF dev) = d_ipv6addr dev)
    \<and> (destipaddr (ICMPv6BUF dev) = d_ipv6addr dev
        \<and> srcipaddr (ICMPv6BUF (fst (icmpv6_input K chk cbx dev g)))
          = destipaddr (ICMPv6BUF (fst (icmpv6_input K chk cbx dev g)))
        \<longrightarrow> srcipaddr (ICMPv6BUF dev) = destipaddr (ICMPv6BUF dev))"
proof -
  have a: "destipaddr (ICMPv6BUF (fst (icmpv6_input K chk cbx dev g))) = srcipaddr (ICMPv6BUF dev)"
    using assms
    by (auto simp add: icmpv6_input_def Let_def exit_sent_def codes net_ipv6addr_cmp_def)
  have b: "srcipaddr (ICMPv6BUF (fst (icmpv6_input K chk cbx dev g))) = d_ipv6addr dev"
    using assms
    by (auto simp add: icmpv6_input_def Let_def exit_sent_def codes net_ipv6addr_cmp_def)
  show ?thesis unfolding a b by auto
qed

text \<open>
  The amended statement at the example solicitation.
\<close>

theorem reply_addresses_witness:
  "type (ICMPv6BUF ns_dev) = ICMPv6_NEIGHBOR_SOLICIT
   \<and> icmpv6data (ICMPv6BUF ns_dev) = d_ipv6addr ns_dev
   \<and> destipaddr (ICMPv6BUF (fst (icmpv6_input K0 spec_icmpv6_chksum waiter_ignores ns_dev g_init)))
       = 0xFE800000000000000000000000000002
   \<and> srcipaddr (ICMPv6BUF (fst (icmpv6_input K0 spec_icmpv6_chksum waiter_ignores ns_dev g_init)))
       = 0xFE800000000000000000000000000001"
  using reply_addresses [of ns_dev K0 spec_icmpv6_chksum waiter_ignores g_init]
  by (simp add: examples codes)

subsection \<open>C6: a solicitation for another address\<close>

text \<open>
  C6: for every Neighbor Solicitation whose target is not the address of the node, the
  buffer length is zero on return, the dropped counter is incremented by one, and no
  call is made: the Neighbor Cache receives no upsert.
\<close>

theorem solicit_other_target_dropped:
  assumes "type (ICMPv6BUF dev) = ICMPv6_NEIGHBOR_SOLICIT"
    and "icmpv6data (ICMPv6BUF dev) \<noteq> d_ipv6addr dev"
    and "CONFIG_NET_STATISTICS K"
  shows "d_len (fst (icmpv6_input K chk cbx dev g)) = 0
    \<and> icmpv6_drop (g_netstats (snd (icmpv6_input K chk cbx dev g)))
        = icmpv6_drop (g_netstats g) + 1
    \<and> calls (snd (icmpv6_input K chk cbx dev g)) = calls g"
  using assms
  by (simp add: icmpv6_input_def Let_def net_ipv6addr_cmp_def exit_drop_def)

text \<open>
  The statement at the solicitation for \<open>fe80::3\<close>.
\<close>

theorem solicit_other_target_dropped_witness:
  "type (ICMPv6BUF other_dev) = ICMPv6_NEIGHBOR_SOLICIT
   \<and> icmpv6data (ICMPv6BUF other_dev) \<noteq> d_ipv6addr other_dev
   \<and> CONFIG_NET_STATISTICS K0
   \<and> d_len (fst (icmpv6_input K0 spec_icmpv6_chksum waiter_ignores other_dev g_init)) = 0
   \<and> icmpv6_drop (g_netstats (snd (icmpv6_input K0 spec_icmpv6_chksum waiter_ignores other_dev g_init))) = 4
   \<and> calls (snd (icmpv6_input K0 spec_icmpv6_chksum waiter_ignores other_dev g_init)) = []"
  using solicit_other_target_dropped [of other_dev K0 spec_icmpv6_chksum waiter_ignores g_init]
  by (simp add: examples codes)

subsection \<open>C7: an Echo Reply that a waiter claims\<close>

text \<open>
  C7: in a build with \<^verbatim>\<open>CONFIG_NET_ICMPv6v6_PING\<close>, for every Echo Reply that arrives
  while a callback is registered and for which the chain returns flags other than
  \<^verbatim>\<open>ICMPv6_ECHOREPLY\<close>, the chain is invoked exactly once, with the flags
  \<^verbatim>\<open>ICMPv6_ECHOREPLY\<close>; the dropped counter is not incremented; and the function runs
  on to the end of its body, where the sent counters of ICMPv6 and of IP are incremented,
  although the buffer holds no new message: its length and contents are as received.
\<close>

theorem echo_reply_claimed:
  assumes "type (ICMPv6BUF dev) = ICMPv6_ECHO_REPLY"
    and "g_echocallback g \<noteq> []"
    and "cbx (dev\<lparr>d_flags := IFF_SET_IPv6 K (d_flags dev)\<rparr>) (ICMPv6_ECHOREPLY K)
           (g_echocallback g) \<noteq> ICMPv6_ECHOREPLY K"
    and "CONFIG_NET_ICMPv6v6_PING K"
    and "CONFIG_NET_STATISTICS K"
  shows "calls (snd (icmpv6_input K chk cbx dev g))
        = calls g @ [DEVIF_CALLBACK_EXECUTE (ICMPv6_ECHOREPLY K)]
    \<and> icmpv6_drop (g_netstats (snd (icmpv6_input K chk cbx dev g)))
        = icmpv6_drop (g_netstats g)
    \<and> icmpv6_sent (g_netstats (snd (icmpv6_input K chk cbx dev g)))
        = icmpv6_sent (g_netstats g) + 1
    \<and> ip_sent (g_netstats (snd (icmpv6_input K chk cbx dev g)))
        = ip_sent (g_netstats g) + 1
    \<and> d_len (fst (icmpv6_input K chk cbx dev g)) = d_len dev
    \<and> ICMPv6BUF (fst (icmpv6_input K chk cbx dev g)) = ICMPv6BUF dev"
  using assms
  by (simp add: icmpv6_input_def Let_def exit_sent_def codes)

text \<open>
  The statement at the example Echo Reply with a waiter that claims it.
\<close>

theorem echo_reply_claimed_witness:
  "type (ICMPv6BUF reply_dev) = ICMPv6_ECHO_REPLY
   \<and> g_echocallback g_waiting \<noteq> []
   \<and> waiter_claims (reply_dev\<lparr>d_flags := IFF_SET_IPv6 K0 (d_flags reply_dev)\<rparr>)
        (ICMPv6_ECHOREPLY K0) (g_echocallback g_waiting) \<noteq> ICMPv6_ECHOREPLY K0
   \<and> CONFIG_NET_ICMPv6v6_PING K0
   \<and> CONFIG_NET_STATISTICS K0
   \<and> calls (snd (icmpv6_input K0 spec_icmpv6_chksum waiter_claims reply_dev g_waiting))
        = [DEVIF_CALLBACK_EXECUTE 0x400]
   \<and> icmpv6_drop (g_netstats (snd (icmpv6_input K0 spec_icmpv6_chksum waiter_claims reply_dev g_waiting))) = 3
   \<and> icmpv6_sent (g_netstats (snd (icmpv6_input K0 spec_icmpv6_chksum waiter_claims reply_dev g_waiting))) = 5
   \<and> ip_sent (g_netstats (snd (icmpv6_input K0 spec_icmpv6_chksum waiter_claims reply_dev g_waiting))) = 8
   \<and> d_len (fst (icmpv6_input K0 spec_icmpv6_chksum waiter_claims reply_dev g_waiting)) = 78"
  using echo_reply_claimed [of reply_dev g_waiting waiter_claims K0 spec_icmpv6_chksum]
  by (simp add: examples codes)

subsection \<open>C8: a message of another type\<close>

text \<open>
  C8: for every message whose type is none of Neighbor Solicitation (135), Echo Request
  (128) and Echo Reply (129), the type-error counter is incremented by one, the dropped
  counter is incremented by one and the buffer length is set to zero. No message is
  emitted: the sent counters are unchanged, the packet is not rewritten and no call is
  made.
\<close>

theorem unknown_type_dropped:
  assumes "type (ICMPv6BUF dev) \<noteq> ICMPv6_NEIGHBOR_SOLICIT"
    and "type (ICMPv6BUF dev) \<noteq> ICMPv6_ECHO_REQUEST"
    and "type (ICMPv6BUF dev) \<noteq> ICMPv6_ECHO_REPLY"
    and "CONFIG_NET_STATISTICS K"
  shows "icmpv6_typeerr (g_netstats (snd (icmpv6_input K chk cbx dev g)))
        = icmpv6_typeerr (g_netstats g) + 1
    \<and> icmpv6_drop (g_netstats (snd (icmpv6_input K chk cbx dev g)))
        = icmpv6_drop (g_netstats g) + 1
    \<and> d_len (fst (icmpv6_input K chk cbx dev g)) = 0
    \<and> icmpv6_sent (g_netstats (snd (icmpv6_input K chk cbx dev g)))
        = icmpv6_sent (g_netstats g)
    \<and> ip_sent (g_netstats (snd (icmpv6_input K chk cbx dev g)))
        = ip_sent (g_netstats g)
    \<and> ICMPv6BUF (fst (icmpv6_input K chk cbx dev g)) = ICMPv6BUF dev
    \<and> calls (snd (icmpv6_input K chk cbx dev g)) = calls g"
  using assms
  by (simp add: icmpv6_input_def Let_def exit_typeerr_def exit_drop_def)

text \<open>
  The statement at a message of type 200.
\<close>

theorem unknown_type_dropped_witness:
  "type (ICMPv6BUF unknown_dev) = 200
   \<and> type (ICMPv6BUF unknown_dev) \<noteq> ICMPv6_NEIGHBOR_SOLICIT
   \<and> type (ICMPv6BUF unknown_dev) \<noteq> ICMPv6_ECHO_REQUEST
   \<and> type (ICMPv6BUF unknown_dev) \<noteq> ICMPv6_ECHO_REPLY
   \<and> CONFIG_NET_STATISTICS K0
   \<and> icmpv6_typeerr (g_netstats (snd (icmpv6_input K0 spec_icmpv6_chksum waiter_claims unknown_dev g_waiting))) = 2
   \<and> icmpv6_drop (g_netstats (snd (icmpv6_input K0 spec_icmpv6_chksum waiter_claims unknown_dev g_waiting))) = 4
   \<and> d_len (fst (icmpv6_input K0 spec_icmpv6_chksum waiter_claims unknown_dev g_waiting)) = 0
   \<and> icmpv6_sent (g_netstats (snd (icmpv6_input K0 spec_icmpv6_chksum waiter_claims unknown_dev g_waiting))) = 4
   \<and> ip_sent (g_netstats (snd (icmpv6_input K0 spec_icmpv6_chksum waiter_claims unknown_dev g_waiting))) = 7
   \<and> calls (snd (icmpv6_input K0 spec_icmpv6_chksum waiter_claims unknown_dev g_waiting)) = []"
  using unknown_type_dropped [of unknown_dev K0 spec_icmpv6_chksum waiter_claims g_waiting]
  by (simp add: examples codes)

subsection \<open>C9: every message is counted as received\<close>

text \<open>
  C9: for every call of the function, whatever the type of the message and whichever
  exit the function takes, the received counter is incremented by exactly one. The
  increment is the first statement of the function, in front of the classification, and
  no branch touches the counter again: the statement holds for every device, every
  state of the globals and every behaviour of the two functions called.
\<close>

theorem received_counted:
  "CONFIG_NET_STATISTICS K \<Longrightarrow>
   icmpv6_recv (g_netstats (snd (icmpv6_input K chk cbx dev g)))
   = icmpv6_recv (g_netstats g) + 1"
  by (simp add: icmpv6_input_def Let_def recv_exit_sent recv_exit_drop recv_exit_typeerr
      net_neighbor_add_def)

text \<open>
  The statement at a message of the unknown type 200.
\<close>

theorem received_counted_witness:
  "CONFIG_NET_STATISTICS K0
   \<and> type (ICMPv6BUF unknown_dev) = 200
   \<and> icmpv6_recv (g_netstats g_init) = 10
   \<and> icmpv6_recv (g_netstats (snd (icmpv6_input K0 spec_icmpv6_chksum waiter_ignores
         unknown_dev g_init))) = 11"
  using received_counted [of K0 spec_icmpv6_chksum waiter_ignores unknown_dev g_init]
  by (simp add: examples)

subsection \<open>C10: the declared length is kept or set to zero\<close>

text \<open>
  C10: for every call of the function the declared length of the buffer on return is
  the declared length on entry or zero. Where the function emits a reply (a
  solicitation for the node's address, an Echo Request) it is the length on entry. In a
  build with statistics the two cases are the two ways out of the function: either the
  function reaches the end of its body, the sent counter is incremented and the length
  is unchanged, or it reaches the label \<^verbatim>\<open>drop\<close>, the dropped counter is incremented
  and the length is zero.
\<close>

theorem d_len_kept_or_zero:
  "(d_len (fst (icmpv6_input K chk cbx dev g)) = d_len dev
      \<or> d_len (fst (icmpv6_input K chk cbx dev g)) = 0)
   \<and> (type (ICMPv6BUF dev) = ICMPv6_NEIGHBOR_SOLICIT
         \<and> icmpv6data (ICMPv6BUF dev) = d_ipv6addr dev
       \<or> type (ICMPv6BUF dev) = ICMPv6_ECHO_REQUEST
       \<longrightarrow> d_len (fst (icmpv6_input K chk cbx dev g)) = d_len dev)
   \<and> (CONFIG_NET_STATISTICS K \<longrightarrow>
        d_len (fst (icmpv6_input K chk cbx dev g)) = d_len dev
          \<and> icmpv6_sent (g_netstats (snd (icmpv6_input K chk cbx dev g)))
              = icmpv6_sent (g_netstats g) + 1
          \<and> icmpv6_drop (g_netstats (snd (icmpv6_input K chk cbx dev g)))
              = icmpv6_drop (g_netstats g)
        \<or> d_len (fst (icmpv6_input K chk cbx dev g)) = 0
          \<and> icmpv6_drop (g_netstats (snd (icmpv6_input K chk cbx dev g)))
              = icmpv6_drop (g_netstats g) + 1
          \<and> icmpv6_sent (g_netstats (snd (icmpv6_input K chk cbx dev g)))
              = icmpv6_sent (g_netstats g))"
proof (intro conjI)
  show "d_len (fst (icmpv6_input K chk cbx dev g)) = d_len dev
      \<or> d_len (fst (icmpv6_input K chk cbx dev g)) = 0"
    by (simp add: icmpv6_input_def Let_def exits net_neighbor_add_def)
next
  show "type (ICMPv6BUF dev) = ICMPv6_NEIGHBOR_SOLICIT
         \<and> icmpv6data (ICMPv6BUF dev) = d_ipv6addr dev
       \<or> type (ICMPv6BUF dev) = ICMPv6_ECHO_REQUEST
       \<longrightarrow> d_len (fst (icmpv6_input K chk cbx dev g)) = d_len dev"
    by (auto simp add: icmpv6_input_def Let_def exit_sent_def codes net_ipv6addr_cmp_def)
next
  show "CONFIG_NET_STATISTICS K \<longrightarrow>
        d_len (fst (icmpv6_input K chk cbx dev g)) = d_len dev
          \<and> icmpv6_sent (g_netstats (snd (icmpv6_input K chk cbx dev g)))
              = icmpv6_sent (g_netstats g) + 1
          \<and> icmpv6_drop (g_netstats (snd (icmpv6_input K chk cbx dev g)))
              = icmpv6_drop (g_netstats g)
        \<or> d_len (fst (icmpv6_input K chk cbx dev g)) = 0
          \<and> icmpv6_drop (g_netstats (snd (icmpv6_input K chk cbx dev g)))
              = icmpv6_drop (g_netstats g) + 1
          \<and> icmpv6_sent (g_netstats (snd (icmpv6_input K chk cbx dev g)))
              = icmpv6_sent (g_netstats g)"
    by (simp add: icmpv6_input_def Let_def exits net_neighbor_add_def)
qed

text \<open>
  The statement at the example Echo Request.
\<close>

theorem d_len_kept_or_zero_witness:
  "type (ICMPv6BUF echo_dev) = ICMPv6_ECHO_REQUEST
   \<and> CONFIG_NET_STATISTICS K0
   \<and> d_len (fst (icmpv6_input K0 spec_icmpv6_chksum waiter_ignores echo_dev g_init)) = d_len echo_dev
   \<and> icmpv6_sent (g_netstats (snd (icmpv6_input K0 spec_icmpv6_chksum waiter_ignores echo_dev g_init))) = 5
   \<and> icmpv6_drop (g_netstats (snd (icmpv6_input K0 spec_icmpv6_chksum waiter_ignores echo_dev g_init))) = 3"
  using d_len_kept_or_zero [of K0 spec_icmpv6_chksum waiter_ignores echo_dev g_init]
  by (auto simp add: examples codes)

end
